theory Spec2Isabelle
  imports Main "HOL-Library.Sublist"
begin

section \<open>JavaScript strings and numbers\<close>

text \<open>
  Strings of the TypeScript source are modelled as \<^typ>\<open>string\<close> (lists of characters);
  the texts the connectors handle (KQL, log lines) are taken as ASCII, so that
  \<open>toLowerCase\<close> maps \<open>A\<close>..\<open>Z\<close> to \<open>a\<close>..\<open>z\<close> and leaves every other
  character alone. Numbers that count minutes, rows, lines and milliseconds are \<^typ>\<open>int\<close>.
\<close>

definition NL :: string where
  "NL = [CHR 0x0A]"

definition toLowerChar :: "char \<Rightarrow> char" where
  "toLowerChar c =
     (let n = (of_char c :: nat) in if 65 \<le> n \<and> n \<le> 90 then char_of (n + 32) else c)"

definition toLowerCase :: "string \<Rightarrow> string" where
  "toLowerCase s = map toLowerChar s"

text \<open>\<open>s.includes(needle)\<close>: the needle occurs in \<open>s\<close> as a contiguous run.\<close>

fun jsIncludes :: "string \<Rightarrow> string \<Rightarrow> bool" where
  "jsIncludes [] needle = (needle = [])"
| "jsIncludes (c # cs) needle = (prefix needle (c # cs) \<or> jsIncludes cs needle)"

definition digitChar :: "nat \<Rightarrow> char" where
  "digitChar d = char_of (48 + d)"

text \<open>Decimal rendering of a natural number, as a template literal prints it.\<close>

fun showNat :: "nat \<Rightarrow> string" where
  "showNat n = (if n < 10 then [digitChar n] else showNat (n div 10) @ [digitChar (n mod 10)])"

declare showNat.simps [simp del]

definition showInt :: "int \<Rightarrow> string" where
  "showInt i = (if i < 0 then CHR ''-'' # showNat (nat (- i)) else showNat (nat i))"

text \<open>
  A thrown value: an \<open>Error\<close> object with its message, or any other value with the text
  \<open>String(error)\<close> gives. \<open>errText\<close> is the source's
  \<open>error instanceof Error ? error.message : String(error)\<close>.
\<close>

datatype thrown = ErrorObj string | OtherThrown string

fun errText :: "thrown \<Rightarrow> string" where
  "errText (ErrorObj m) = m"
| "errText (OtherThrown s) = s"

section \<open>Log Analytics connector (src/azure/log-analytics.ts)\<close>

definition MAX_ROWS :: int where
  "MAX_ROWS = 500"

definition MAX_TIMERANGE_DAYS :: int where
  "MAX_TIMERANGE_DAYS = 7"

definition QUERY_TIMEOUT_MS :: int where
  "QUERY_TIMEOUT_MS = 30000"

text \<open>A cell of a result table, and a row object keyed by column name (in insertion order).\<close>

datatype cell = CUndefined | CNull | CStr string | CNum int | CDate "int option"

type_synonym row = "(string \<times> cell) list"

record LogQueryResult =
  success :: bool
  rowCount :: int
  truncated :: bool
  columns :: "string list"
  rows :: "row list"
  queryTimeMs :: int
  error :: "string option"

text \<open>What the backend client hands back: a table and the result of \<open>queryWorkspace\<close>.\<close>

record column_descriptor =
  name :: "string option"

record la_table =
  columnDescriptors :: "column_descriptor list option"
  table_rows :: "cell list list"

datatype la_status = Success | PartialFailure | Failure

record la_response =
  status :: la_status
  tables :: "la_table list"
  partialError :: "string option option"

datatype la_outcome = Returned la_response | Thrown thrown

text \<open>One call of \<open>client.queryWorkspace\<close>, as the trace of a run records it.\<close>

record la_call =
  call_workspaceId :: string
  call_query :: string
  call_startTime :: int
  call_endTime :: int
  serverTimeoutInSeconds :: int

text \<open>
  The world a query runs in: the clock readings (\<open>Date.now()\<close> on entry, \<open>new Date()\<close>
  before the call, \<open>Date.now()\<close> after it or in the handler) and the backend.
\<close>

record la_env =
  t_entry :: int
  t_dispatch :: int
  t_done :: int
  queryWorkspace :: "la_call \<Rightarrow> la_outcome"

definition addRowLimit :: "string \<Rightarrow> int \<Rightarrow> string" where
  "addRowLimit query limit =
     (let lowerQuery = toLowerCase query in
      if jsIncludes lowerQuery ''| limit'' \<or> jsIncludes lowerQuery ''| take'' then query
      else query @ NL @ ''| limit '' @ showInt limit)"

text \<open>\<open>obj[col] = row[idx]\<close> for every column: a later column of the same name overwrites.\<close>

definition cellAt :: "cell list \<Rightarrow> nat \<Rightarrow> cell" where
  "cellAt r idx = (if idx < length r then r ! idx else CUndefined)"

definition setKey :: "string \<Rightarrow> cell \<Rightarrow> row \<Rightarrow> row" where
  "setKey k v obj =
     (if k \<in> set (map fst obj) then map (\<lambda>(k', v'). if k' = k then (k', v) else (k', v')) obj
      else obj @ [(k, v)])"

definition rowObject :: "string list \<Rightarrow> cell list \<Rightarrow> row" where
  "rowObject cols r =
     fold (\<lambda>(col, idx) obj. setKey col (cellAt r idx) obj) (zip cols [0 ..< length cols]) []"

definition columnName :: "column_descriptor \<Rightarrow> string" where
  "columnName c = (case name c of None \<Rightarrow> [] | Some n \<Rightarrow> n)"

definition emptyResult :: "bool \<Rightarrow> int \<Rightarrow> string option \<Rightarrow> LogQueryResult" where
  "emptyResult ok ms err =
     \<lparr> success = ok, rowCount = 0, truncated = False, columns = [], rows = [],
       queryTimeMs = ms, error = err \<rparr>"

text \<open>The branches after \<open>queryWorkspace\<close> has returned (the body of the \<open>try\<close>).\<close>

definition interpretResponse :: "la_response \<Rightarrow> int \<Rightarrow> LogQueryResult" where
  "interpretResponse result ms =
     (if status result = Success \<and> length (tables result) > 0 then
        (let table = hd (tables result);
             descriptors = (case columnDescriptors table of None \<Rightarrow> [] | Some ds \<Rightarrow> ds);
             cols = map columnName descriptors;
             rs = map (rowObject cols) (table_rows table)
         in \<lparr> success = True, rowCount = int (length rs),
              truncated = (int (length rs) \<ge> MAX_ROWS), columns = cols, rows = rs,
              queryTimeMs = ms, error = None \<rparr>)
      else if status result = PartialFailure then
        emptyResult False ms
          (Some (''Partial query failure: '' @
             (case partialError result of
                Some (Some m) \<Rightarrow> (if m = [] then ''Unknown error'' else m)
              | _ \<Rightarrow> ''Unknown error'')))
      else emptyResult True ms None)"

text \<open>
  \<open>LogAnalyticsConnector.query\<close>: the list of backend calls made, and the result.
\<close>

definition query :: "la_env \<Rightarrow> string \<Rightarrow> string \<Rightarrow> int \<Rightarrow> la_call list \<times> LogQueryResult" where
  "query env workspaceId kqlQuery timeRangeMinutes =
     (let startTime = t_entry env;
          maxMinutes = MAX_TIMERANGE_DAYS * 24 * 60
      in if timeRangeMinutes > maxMinutes then
           ([], emptyResult False 0
                  (Some (''Time range exceeds maximum of '' @ showInt MAX_TIMERANGE_DAYS @
                         '' days. Use a shorter time range.'')))
         else
           (let limitedQuery = addRowLimit kqlQuery MAX_ROWS;
                endTime = t_dispatch env;
                startTimeDate = endTime - timeRangeMinutes * 60 * 1000;
                call = \<lparr> call_workspaceId = workspaceId, call_query = limitedQuery,
                         call_startTime = startTimeDate, call_endTime = endTime,
                         serverTimeoutInSeconds = QUERY_TIMEOUT_MS div 1000 \<rparr>
            in case queryWorkspace env call of
                 Returned result \<Rightarrow> ([call], interpretResponse result (t_done env - startTime))
               | Thrown e \<Rightarrow>
                   ([call], emptyResult False (t_done env - startTime) (Some (errText e)))))"

section \<open>Kudu connector (src/azure/kudu.ts)\<close>

record KuduLogEntry =
  machineName :: string
  lastUpdated :: string
  entry_size :: int
  href :: string
  path :: string

record ContainerLog =
  timestamp :: string
  content :: string

record KuduLogsResult =
  k_success :: bool
  entries :: "ContainerLog list"
  k_error :: "string option"

text \<open>
  A response of \<open>fetch\<close>: \<open>text()\<close> and \<open>json()\<close> either give their value or throw.
\<close>

record http_response =
  ok :: bool
  http_status :: nat
  statusText :: string
  text_body :: "thrown + string"
  json_body :: "thrown + KuduLogEntry list"

datatype fetch_outcome = FetchThrew thrown | Response http_response

text \<open>
  The world of the connector: what \<open>fetchWithAuth\<close> does for a URL (a throw covers a
  failed token request), the text of \<open>new Date().toISOString()\<close>, the time value of
  \<open>new Date(s).getTime()\<close> (\<open>None\<close> is \<open>NaN\<close>), and the host's
  \<open>Array.prototype.sort\<close> for a comparator that is not a consistent order, where the
  language leaves the result to the implementation. Every function below returns the list
  of URLs it fetched, in order, next to its value.
\<close>

record kudu_env =
  fetchWithAuth :: "string \<Rightarrow> fetch_outcome"
  nowISO :: string
  dateValue :: "string \<Rightarrow> int option"
  hostSort :: "(KuduLogEntry \<Rightarrow> KuduLogEntry \<Rightarrow> int) \<Rightarrow> KuduLogEntry list \<Rightarrow> KuduLogEntry list"

definition getScmUrl :: "string \<Rightarrow> string" where
  "getScmUrl appName = ''https://'' @ appName @ ''.scm.azurewebsites.net''"

definition httpError :: "http_response \<Rightarrow> thrown" where
  "httpError r = ErrorObj (''HTTP '' @ showNat (http_status r) @ '': '' @ statusText r)"

text \<open>The shared shape of \<open>listContainerLogs\<close> and \<open>listLogFiles\<close>.\<close>

definition listAt :: "kudu_env \<Rightarrow> string \<Rightarrow> string \<Rightarrow> string list \<times> (thrown + KuduLogEntry list)" where
  "listAt env url failed =
     ([url],
      (case fetchWithAuth env url of
         FetchThrew e \<Rightarrow> Inl (ErrorObj (failed @ errText e))
       | Response r \<Rightarrow>
           if \<not> ok r then Inl (ErrorObj (failed @ errText (httpError r)))
           else (case json_body r of
                   Inl e \<Rightarrow> Inl (ErrorObj (failed @ errText e))
                 | Inr es \<Rightarrow> Inr es)))"

definition listContainerLogs :: "kudu_env \<Rightarrow> string \<Rightarrow> string list \<times> (thrown + KuduLogEntry list)" where
  "listContainerLogs env appName =
     listAt env (getScmUrl appName @ ''/api/logs/docker'') ''Failed to list container logs: ''"

definition listLogFiles :: "kudu_env \<Rightarrow> string \<Rightarrow> string \<Rightarrow> string list \<times> (thrown + KuduLogEntry list)" where
  "listLogFiles env appName p =
     listAt env (getScmUrl appName @ ''/api/vfs'' @ p) ''Failed to list log files: ''"

text \<open>\<open>xs.slice(start)\<close> with one argument, for arrays and strings alike.\<close>

definition sliceFrom :: "int \<Rightarrow> 'a list \<Rightarrow> 'a list" where
  "sliceFrom start xs =
     (let len = int (length xs);
          k = (if start < 0 then max (len + start) 0 else min start len)
      in drop (nat k) xs)"

fun splitOn :: "char \<Rightarrow> string \<Rightarrow> string list" where
  "splitOn d [] = [[]]"
| "splitOn d (c # cs) =
     (if c = d then [] # splitOn d cs
      else (case splitOn d cs of l # ls \<Rightarrow> (c # l) # ls | [] \<Rightarrow> [[c]]))"

definition isSpace :: "char \<Rightarrow> bool" where
  "isSpace c = (c \<in> set [CHR '' '', CHR 0x09, CHR 0x0A, CHR 0x0B, CHR 0x0C, CHR 0x0D])"

text \<open>\<open>line.trim()\<close> is truthy: some character of the line is not white space.\<close>

definition nonBlank :: "string \<Rightarrow> bool" where
  "nonBlank line = list_ex (\<lambda>c. \<not> isSpace c) line"

definition contentLines :: "string \<Rightarrow> string list" where
  "contentLines c = filter nonBlank (splitOn (CHR 0x0A) c)"

definition isDigit :: "char \<Rightarrow> bool" where
  "isDigit c = (c \<in> set ''0123456789'')"

definition isChar :: "char \<Rightarrow> char \<Rightarrow> bool" where
  "isChar a c = (c = a)"

definition isDateSep :: "char \<Rightarrow> bool" where
  "isDateSep c = (c = CHR ''T'' \<or> c = CHR '' '')"

text \<open>The pattern \<open>^(\d{4}-\d{2}-\d{2}[T ]\d{2}:\d{2}:\d{2})\<close>, one test per position.\<close>

definition timestampPattern :: "(char \<Rightarrow> bool) list" where
  "timestampPattern =
     [isDigit, isDigit, isDigit, isDigit, isChar (CHR ''-''), isDigit, isDigit,
      isChar (CHR ''-''), isDigit, isDigit, isDateSep, isDigit, isDigit, isChar (CHR '':''),
      isDigit, isDigit, isChar (CHR '':''), isDigit, isDigit]"

definition timestampMatch :: "string \<Rightarrow> string option" where
  "timestampMatch line =
     (let p = take 19 line
      in if length p = 19 \<and> list_all2 (\<lambda>f c. f c) timestampPattern p then Some p else None)"

definition lineEntry :: "kudu_env \<Rightarrow> string \<Rightarrow> ContainerLog" where
  "lineEntry env line =
     \<lparr> timestamp = (case timestampMatch line of Some t \<Rightarrow> t | None \<Rightarrow> nowISO env),
       content = line \<rparr>"

text \<open>
  \<open>logs.sort((a, b) => new Date(b.lastUpdated).getTime() - new Date(a.lastUpdated).getTime())\<close>.
  The sort takes a \<open>NaN\<close> difference as zero. When every \<open>lastUpdated\<close> parses, or
  none does, the comparator is a consistent order and the result is the stable sort by
  it; when some parse and some do not it is not, and the order is the host's.
\<close>

definition newestFirst :: "kudu_env \<Rightarrow> KuduLogEntry \<Rightarrow> KuduLogEntry \<Rightarrow> int" where
  "newestFirst env a b =
     (case (dateValue env (lastUpdated b), dateValue env (lastUpdated a)) of
        (Some tb, Some ta) \<Rightarrow> tb - ta
      | _ \<Rightarrow> 0)"

fun insertBy :: "('a \<Rightarrow> 'a \<Rightarrow> int) \<Rightarrow> 'a \<Rightarrow> 'a list \<Rightarrow> 'a list" where
  "insertBy cmp x [] = [x]"
| "insertBy cmp x (y # ys) = (if cmp x y \<le> 0 then x # y # ys else y # insertBy cmp x ys)"

definition sortBy :: "('a \<Rightarrow> 'a \<Rightarrow> int) \<Rightarrow> 'a list \<Rightarrow> 'a list" where
  "sortBy cmp xs = foldr (insertBy cmp) xs []"

definition parses :: "kudu_env \<Rightarrow> KuduLogEntry \<Rightarrow> bool" where
  "parses env e = (dateValue env (lastUpdated e) \<noteq> None)"

definition sortNewestFirst :: "kudu_env \<Rightarrow> KuduLogEntry list \<Rightarrow> KuduLogEntry list" where
  "sortNewestFirst env logs =
     (if list_all (parses env) logs \<or> list_all (\<lambda>e. \<not> parses env e) logs
      then sortBy (newestFirst env) logs
      else hostSort env (newestFirst env) logs)"

definition kuduOk :: "ContainerLog list \<Rightarrow> KuduLogsResult" where
  "kuduOk es = \<lparr> k_success = True, entries = es, k_error = None \<rparr>"

definition kuduFailed :: "thrown \<Rightarrow> KuduLogsResult" where
  "kuduFailed e = \<lparr> k_success = False, entries = [], k_error = Some (errText e) \<rparr>"

definition getContainerLogs :: "kudu_env \<Rightarrow> string \<Rightarrow> int \<Rightarrow> string list \<times> KuduLogsResult" where
  "getContainerLogs env appName maxLines =
     (case listContainerLogs env appName of
        (t1, Inl e) \<Rightarrow> (t1, kuduFailed e)
      | (t1, Inr logs) \<Rightarrow>
          if length logs = 0 then (t1, kuduOk [])
          else
            (let recentLog = hd (sortNewestFirst env logs);
                 t2 = t1 @ [href recentLog]
             in case fetchWithAuth env (href recentLog) of
                  FetchThrew e \<Rightarrow> (t2, kuduFailed e)
                | Response r \<Rightarrow>
                    if \<not> ok r then (t2, kuduFailed (httpError r))
                    else (case text_body r of
                            Inl e \<Rightarrow> (t2, kuduFailed e)
                          | Inr c \<Rightarrow>
                              (let lines = contentLines c;
                                   recentLines = sliceFrom (- maxLines) lines
                               in (t2, kuduOk (map (lineEntry env) recentLines))))))"

definition readLogFile :: "kudu_env \<Rightarrow> string \<Rightarrow> string \<Rightarrow> int \<Rightarrow> string list \<times> (thrown + string)" where
  "readLogFile env appName p maxBytes =
     (let url = getScmUrl appName @ ''/api/vfs'' @ p;
          failed = ''Failed to read log file: ''
      in ([url],
          (case fetchWithAuth env url of
             FetchThrew e \<Rightarrow> Inl (ErrorObj (failed @ errText e))
           | Response r \<Rightarrow>
               if \<not> ok r then Inl (ErrorObj (failed @ errText (httpError r)))
               else (case text_body r of
                       Inl e \<Rightarrow> Inl (ErrorObj (failed @ errText e))
                     | Inr c \<Rightarrow>
                         if int (length c) > maxBytes
                         then Inr (sliceFrom (- maxBytes) c @ NL @ ''... (truncated)'')
                         else Inr c))))"

definition truthy :: "string option \<Rightarrow> bool" where
  "truthy s = (case s of None \<Rightarrow> False | Some t \<Rightarrow> t \<noteq> [])"

definition matchesFilter :: "string \<Rightarrow> string \<Rightarrow> bool" where
  "matchesFilter f s = jsIncludes (toLowerCase s) (toLowerCase f)"

definition getRecentLogs :: "kudu_env \<Rightarrow> string \<Rightarrow> int \<Rightarrow> string option \<Rightarrow> string list \<times> KuduLogsResult" where
  "getRecentLogs env appName maxLines flt =
     (case getContainerLogs env appName maxLines of
        (t1, containerResult) \<Rightarrow>
          if k_success containerResult \<and> length (entries containerResult) > 0 then
            (t1, kuduOk (if truthy flt
                         then filter (\<lambda>e. matchesFilter (the flt) (content e))
                                (entries containerResult)
                         else entries containerResult))
          else
            (case listLogFiles env appName ''/LogFiles/Application/'' of
               (t2, Inl e) \<Rightarrow> (t1 @ t2, containerResult)
             | (t2, Inr logFiles) \<Rightarrow>
                 if length logFiles = 0 then (t1 @ t2, kuduOk [])
                 else
                   (case readLogFile env appName
                           (path (hd (sortNewestFirst env logFiles))) 100000 of
                      (t3, Inl e) \<Rightarrow> (t1 @ t2 @ t3, containerResult)
                    | (t3, Inr c) \<Rightarrow>
                        (let lines0 = contentLines c;
                             lines = (if truthy flt
                                      then filter (matchesFilter (the flt)) lines0
                                      else lines0)
                         in (t1 @ t2 @ t3,
                             kuduOk (map (\<lambda>line. \<lparr> timestamp = nowISO env, content = line \<rparr>)
                                       (sliceFrom (- maxLines) lines)))))))"

section \<open>Dates of the host\<close>

text \<open>
  A \<open>Date\<close> is its time value in milliseconds since the epoch, or \<open>None\<close> for an
  invalid date. \<open>toISOString\<close> raises a \<open>RangeError\<close> on an invalid date.
\<close>

type_synonym jsdate = "int option"

definition timeClip :: "int \<Rightarrow> jsdate" where
  "timeClip t = (if \<bar>t\<bar> \<le> 8640000000000000 then Some t else None)"

definition shiftDate :: "jsdate \<Rightarrow> int \<Rightarrow> jsdate" where
  "shiftDate d ms = (case d of None \<Rightarrow> None | Some t \<Rightarrow> timeClip (t + ms))"

definition padStart :: "nat \<Rightarrow> nat \<Rightarrow> string" where
  "padStart w n = replicate (w - length (showNat n)) (CHR ''0'') @ showNat n"

text \<open>Year, month and day of a day number counted from 1970-01-01 (proleptic Gregorian).\<close>

definition civilFromDays :: "int \<Rightarrow> int \<times> int \<times> int" where
  "civilFromDays z =
     (let z1 = z + 719468;
          era = z1 div 146097;
          doe = z1 - era * 146097;
          yoe = (doe - doe div 1460 + doe div 36524 - doe div 146096) div 365;
          y = yoe + era * 400;
          doy = doe - (365 * yoe + yoe div 4 - yoe div 100);
          mp = (5 * doy + 2) div 153;
          d = doy - (153 * mp + 2) div 5 + 1;
          m = (if mp < 10 then mp + 3 else mp - 9)
      in (if m \<le> 2 then y + 1 else y, m, d))"

definition yearText :: "int \<Rightarrow> string" where
  "yearText y =
     (if 0 \<le> y \<and> y \<le> 9999 then padStart 4 (nat y)
      else (if y < 0 then CHR ''-'' else CHR ''+'') # padStart 6 (nat \<bar>y\<bar>))"

definition isoString :: "int \<Rightarrow> string" where
  "isoString t =
     (let day = t div 86400000;
          ms = t mod 86400000
      in case civilFromDays day of
           (y, m, d) \<Rightarrow>
             yearText y @ ''-'' @ padStart 2 (nat m) @ ''-'' @ padStart 2 (nat d) @ ''T'' @
             padStart 2 (nat (ms div 3600000)) @ '':'' @
             padStart 2 (nat ((ms div 60000) mod 60)) @ '':'' @
             padStart 2 (nat ((ms div 1000) mod 60)) @ ''.'' @
             padStart 3 (nat (ms mod 1000)) @ ''Z'')"

definition rangeError :: thrown where
  "rangeError = ErrorObj ''Invalid time value''"

definition typeError :: thrown where
  "typeError = ErrorObj ''not a function''"

definition toISOString :: "jsdate \<Rightarrow> thrown + string" where
  "toISOString d = (case d of None \<Rightarrow> Inl rangeError | Some t \<Rightarrow> Inr (isoString t))"

section \<open>Tools (src/tools/index.ts)\<close>

definition SQ :: string where
  "SQ = [CHR 0x27]"

definition DQ :: string where
  "DQ = [CHR 0x22]"

definition BT :: string where
  "BT = [CHR 0x60]"

definition WARN :: string where
  "WARN = [CHR 0xE2, CHR 0x9A, CHR 0xA0, CHR 0xEF, CHR 0xB8, CHR 0x8F]"

definition CHECK :: string where
  "CHECK = [CHR 0xE2, CHR 0x9C, CHR 0x85]"

record deployment =
  dep_status :: "int option"
  deployer :: "string option"
  dep_message :: "string option"
  startTime :: "jsdate option"
  endTime :: "jsdate option"

text \<open>
  The world of a tool call once a context is selected: the two connectors' worlds, the
  application's name, the deployment history the metadata backend lists (empty also when
  listing fails), what \<open>getWorkspaceId\<close> returns (\<open>None\<close> for \<open>null\<close>), and the host's
  \<open>Date\<close> parser and \<open>Date.prototype.toString\<close>.
\<close>

record tool_env =
  la :: la_env
  kudu :: kudu_env
  env_appName :: string
  env_deployments :: "deployment list"
  env_workspaceId :: "string option"
  parseDate :: "string \<Rightarrow> jsdate"
  dateText :: "jsdate \<Rightarrow> string"

record diagnose_args =
  d_deploymentIndex :: "nat option"
  d_windowMinutes :: "int option"


text \<open>\<open>(args.x as number) || dflt\<close>: an absent or zero argument takes the default.\<close>

definition numberOr :: "int option \<Rightarrow> int \<Rightarrow> int" where
  "numberOr a dflt = (case a of None \<Rightarrow> dflt | Some n \<Rightarrow> if n = 0 then dflt else n)"

definition textOr :: "string option \<Rightarrow> string \<Rightarrow> string" where
  "textOr a dflt = (case a of None \<Rightarrow> dflt | Some s \<Rightarrow> if s = [] then dflt else s)"

text \<open>\<open>ArmClient.getDeployments\<close>: the listing is cut once it holds \<open>limit\<close> records.\<close>

definition getDeployments :: "tool_env \<Rightarrow> int \<Rightarrow> deployment list" where
  "getDeployments env limit = take (nat (max 1 limit)) (env_deployments env)"

definition field :: "row \<Rightarrow> string \<Rightarrow> cell" where
  "field r k = (case map_of r k of None \<Rightarrow> CUndefined | Some c \<Rightarrow> c)"

text \<open>\<open>x?.includes(..)\<close> and \<open>x?.toLowerCase().includes(..)\<close> on a cell.\<close>

definition optionalTest :: "cell \<Rightarrow> (string \<Rightarrow> bool) \<Rightarrow> thrown + bool" where
  "optionalTest c p =
     (case c of CStr s \<Rightarrow> Inr (p s) | CNull \<Rightarrow> Inr False | CUndefined \<Rightarrow> Inr False
      | _ \<Rightarrow> Inl typeError)"

fun filterE :: "('a \<Rightarrow> thrown + bool) \<Rightarrow> 'a list \<Rightarrow> thrown + 'a list" where
  "filterE p [] = Inr []"
| "filterE p (x # xs) =
     (case p x of
        Inl e \<Rightarrow> Inl e
      | Inr b \<Rightarrow> (case filterE p xs of Inl e \<Rightarrow> Inl e | Inr ys \<Rightarrow> Inr (if b then x # ys else ys)))"

fun renderAll :: "('a \<Rightarrow> thrown + string) \<Rightarrow> 'a list \<Rightarrow> thrown + string" where
  "renderAll f [] = Inr []"
| "renderAll f (x # xs) =
     (case f x of
        Inl e \<Rightarrow> Inl e
      | Inr s \<Rightarrow> (case renderAll f xs of Inl e \<Rightarrow> Inl e | Inr t \<Rightarrow> Inr (s @ t)))"

definition digitValue :: "char \<Rightarrow> int" where
  "digitValue c = int (of_char c) - 48"

text \<open>
  The number a cell compares as. Of the strings only plain runs of decimal digits are
  read as numbers; the status column of the backend is numeric.
\<close>

definition toNumber :: "cell \<Rightarrow> int option" where
  "toNumber c =
     (case c of
        CNum n \<Rightarrow> Some n
      | CNull \<Rightarrow> Some 0
      | CUndefined \<Rightarrow> None
      | CDate d \<Rightarrow> d
      | CStr s \<Rightarrow>
          if s \<noteq> [] \<and> list_all isDigit s then Some (fold (\<lambda>ch n. 10 * n + digitValue ch) s 0)
          else None)"

definition cellText :: "tool_env \<Rightarrow> cell \<Rightarrow> string" where
  "cellText env c =
     (case c of
        CStr s \<Rightarrow> s
      | CNum n \<Rightarrow> showInt n
      | CNull \<Rightarrow> ''null''
      | CUndefined \<Rightarrow> ''undefined''
      | CDate d \<Rightarrow> dateText env d)"

definition newDate :: "tool_env \<Rightarrow> cell \<Rightarrow> jsdate" where
  "newDate env c =
     (case c of
        CDate d \<Rightarrow> d
      | CNull \<Rightarrow> Some 0
      | CUndefined \<Rightarrow> None
      | CNum n \<Rightarrow> timeClip n
      | CStr s \<Rightarrow> parseDate env s)"

subsection \<open>The keyword tests of the deployment diagnosis\<close>

definition isStartupMessage :: "string \<Rightarrow> bool" where
  "isStartupMessage m =
     (jsIncludes m ''start'' \<or> jsIncludes m ''probe'' \<or> jsIncludes m ''running'')"

definition isErrorMessage :: "string \<Rightarrow> bool" where
  "isErrorMessage m =
     (jsIncludes (toLowerCase m) ''error'' \<or> jsIncludes (toLowerCase m) ''fail'' \<or>
      jsIncludes (toLowerCase m) ''crash'' \<or> jsIncludes (toLowerCase m) ''oom'' \<or>
      jsIncludes (toLowerCase m) ''memory'')"

definition isTerminationMessage :: "string \<Rightarrow> bool" where
  "isTerminationMessage m = (jsIncludes m ''terminat'' \<or> jsIncludes m ''stop'')"

definition isAppErrorMessage :: "string \<Rightarrow> bool" where
  "isAppErrorMessage m =
     (jsIncludes (toLowerCase m) ''error'' \<or> jsIncludes (toLowerCase m) ''exception'' \<or>
      jsIncludes (toLowerCase m) ''fail'')"

definition startupEvents :: "row list \<Rightarrow> thrown + row list" where
  "startupEvents rs = filterE (\<lambda>r. optionalTest (field r ''Message'') isStartupMessage) rs"

definition errorEvents :: "row list \<Rightarrow> thrown + row list" where
  "errorEvents rs = filterE (\<lambda>r. optionalTest (field r ''Message'') isErrorMessage) rs"

definition terminateEvents :: "row list \<Rightarrow> thrown + row list" where
  "terminateEvents rs = filterE (\<lambda>r. optionalTest (field r ''Message'') isTerminationMessage) rs"

definition errorLogs :: "row list \<Rightarrow> thrown + row list" where
  "errorLogs rs = filterE (\<lambda>r. optionalTest (field r ''ResultDescription'') isAppErrorMessage) rs"

definition atLeast500 :: "row \<Rightarrow> bool" where
  "atLeast500 r = (case toNumber (field r ''ScStatus'') of None \<Rightarrow> False | Some n \<Rightarrow> n \<ge> 500)"

definition below400 :: "row \<Rightarrow> bool" where
  "below400 r = (case toNumber (field r ''ScStatus'') of None \<Rightarrow> False | Some n \<Rightarrow> n < 400)"

subsection \<open>The sections of the diagnosis report\<close>

definition bindE :: "thrown + 'a \<Rightarrow> ('a \<Rightarrow> thrown + 'b) \<Rightarrow> thrown + 'b" where
  "bindE m f = (case m of Inl e \<Rightarrow> Inl e | Inr x \<Rightarrow> f x)"

fun joinWith :: "string \<Rightarrow> string list \<Rightarrow> string" where
  "joinWith sep [] = []"
| "joinWith sep [x] = x"
| "joinWith sep (x # y # ys) = x @ sep @ joinWith sep (y # ys)"

definition betweenClause :: "string \<Rightarrow> string \<Rightarrow> string" where
  "betweenClause s e =
     ''| where TimeGenerated between (datetime('' @ SQ @ s @ SQ @ '') .. datetime('' @ SQ @ e @
     SQ @ ''))''"

definition platformQuery :: "string \<Rightarrow> string \<Rightarrow> string" where
  "platformQuery s e =
     ''AppServicePlatformLogs'' @ NL @ betweenClause s e @ NL @
     ''| project TimeGenerated, Message'' @ NL @ ''| order by TimeGenerated asc''"

definition consoleQuery :: "string \<Rightarrow> string \<Rightarrow> string" where
  "consoleQuery s e =
     ''AppServiceConsoleLogs'' @ NL @ betweenClause s e @ NL @
     ''| project TimeGenerated, ResultDescription'' @ NL @ ''| order by TimeGenerated asc''"

definition httpQuery :: "string \<Rightarrow> string \<Rightarrow> string" where
  "httpQuery s e =
     ''AppServiceHTTPLogs'' @ NL @ betweenClause s e @ NL @
     ''| project TimeGenerated, CsMethod, CsUriStem, ScStatus, TimeTaken'' @ NL @
     ''| order by TimeGenerated asc'' @ NL @ ''| take 20''"


definition timedLine :: "tool_env \<Rightarrow> row \<Rightarrow> thrown + string" where
  "timedLine env evt =
     bindE (toISOString (newDate env (field evt ''TimeGenerated'')))
       (\<lambda>t. Inr (''- '' @ t @ '': '' @ cellText env (field evt ''Message'') @ NL))"

definition quotedLine :: "tool_env \<Rightarrow> row \<Rightarrow> string" where
  "quotedLine env evt = ''- '' @ BT @ cellText env (field evt ''Message'') @ BT @ NL"

definition platformHeader :: "row list \<Rightarrow> string" where
  "platformHeader rs = ''### Platform Events ('' @ showNat (length rs) @ '' events)'' @ NL @ NL"

definition platformSection :: "tool_env \<Rightarrow> row list \<Rightarrow> thrown + string" where
  "platformSection env rs =
     (if length rs > 0 then
        bindE (startupEvents rs) (\<lambda>st.
        bindE (errorEvents rs) (\<lambda>er.
        bindE (terminateEvents rs) (\<lambda>te.
        bindE (renderAll (timedLine env) (take 5 st)) (\<lambda>stLines.
        bindE (renderAll (timedLine env) (take 3 te)) (\<lambda>teLines.
          Inr (platformHeader rs @
               (if length er > 0
                then WARN @ '' **Errors detected:**'' @ NL @
                     concat (map (quotedLine env) (take 5 er)) @ NL
                else []) @
               (if length st > 0 then ''**Startup sequence:**'' @ NL @ stLines @ NL else []) @
               (if length te > 0 then ''**Container terminations:**'' @ NL @ teLines @ NL
                else [])))))))
      else Inr (platformHeader rs @ ''_No platform events found in this window._'' @ NL @ NL))"

definition applicationHeader :: "row list \<Rightarrow> string" where
  "applicationHeader rs = ''### Application Logs ('' @ showNat (length rs) @ '' entries)'' @ NL @ NL"

definition applicationSection :: "tool_env \<Rightarrow> row list \<Rightarrow> thrown + string" where
  "applicationSection env rs =
     (if length rs > 0 then
        bindE (errorLogs rs) (\<lambda>el.
          Inr (applicationHeader rs @
               (if length el > 0
                then WARN @ '' **Application errors:**'' @ NL @ BT @ BT @ BT @ NL @
                     concat (map (\<lambda>l. cellText env (field l ''ResultDescription'') @ NL)
                               (take 5 el)) @
                     BT @ BT @ BT @ NL @ NL
                else CHECK @ '' No application errors detected.'' @ NL @ NL)))
      else Inr (applicationHeader rs @ ''_No console output in this window._'' @ NL @ NL))"

definition httpHeader :: "row list \<Rightarrow> string" where
  "httpHeader rs = ''### First HTTP Requests ('' @ showNat (length rs) @ '' requests)'' @ NL @ NL"

definition requestLine :: "tool_env \<Rightarrow> row \<Rightarrow> string" where
  "requestLine env req =
     ''- '' @ cellText env (field req ''ScStatus'') @ '' '' @ cellText env (field req ''CsMethod'') @
     '' '' @ cellText env (field req ''CsUriStem'') @ '' ('' @
     cellText env (field req ''TimeTaken'') @ ''ms)'' @ NL"

definition firstSuccessLine :: "tool_env \<Rightarrow> row \<Rightarrow> thrown + string" where
  "firstSuccessLine env r =
     bindE (toISOString (newDate env (field r ''TimeGenerated'')))
       (\<lambda>t. Inr (''- First success: '' @ cellText env (field r ''CsMethod'') @ '' '' @
                 cellText env (field r ''CsUriStem'') @ '' at '' @ t @ NL @ NL))"

definition httpSection :: "tool_env \<Rightarrow> row list \<Rightarrow> thrown + string" where
  "httpSection env rs =
     (if length rs > 0 then
        (let errors = filter atLeast500 rs;
             successful = filter below400 rs
         in bindE (if length successful > 0 then firstSuccessLine env (hd successful) else Inr [])
              (\<lambda>firstLine.
                 Inr (httpHeader rs @
                      (if length errors > 0
                       then WARN @ '' **HTTP 5xx errors:** '' @ showNat (length errors) @ NL @
                            concat (map (requestLine env) (take 5 errors)) @ NL
                       else []) @
                      (if length successful > 0
                       then CHECK @ '' **Successful requests:** '' @
                            showNat (length successful) @ NL @ firstLine
                       else []))))
      else Inr (httpHeader rs @
                ''_No HTTP requests in this window (app may not have received traffic yet)._'' @
                NL @ NL))"

definition diagnosisHeader :: "deployment \<Rightarrow> string \<Rightarrow> string" where
  "diagnosisHeader d deployIso =
     ''## Deployment Diagnosis'' @ NL @ NL @
     ''**Deployment:** '' @ deployIso @ NL @
     ''**Status:** '' @
       (case dep_status d of None \<Rightarrow> ''Unknown''
        | Some n \<Rightarrow> if n = 0 then ''Unknown'' else showInt n) @ NL @
     ''**Deployer:** '' @ textOr (deployer d) ''N/A'' @ NL @
     ''**Message:** '' @ textOr (dep_message d) ''N/A'' @ NL @ NL"

definition diagnosisSummary :: "int \<Rightarrow> string \<Rightarrow> string" where
  "diagnosisSummary minutes deployIso =
     ''### Diagnosis Summary'' @ NL @ NL @
     ''Analyzed '' @ showInt minutes @ '' minutes after deployment at '' @ deployIso @ ''.'' @ NL @
     ''Use '' @ BT @ ''correlate_events'' @ BT @
     '' with specific timestamps for deeper investigation.''"

definition kuduSection :: "KuduLogsResult \<Rightarrow> string" where
  "kuduSection kuduLogs =
     WARN @ '' Log Analytics not configured. Limited diagnosis available.'' @ NL @ NL @
     ''### Recent Container Logs'' @ NL @ NL @
     (if length (entries kuduLogs) > 0
      then BT @ BT @ BT @ NL @ joinWith NL (map content (take 30 (entries kuduLogs))) @ NL @
           BT @ BT @ BT @ NL @ NL
      else [])"

text \<open>\<open>(args.deploymentIndex as number) || 0\<close>, an ordinal into the history.\<close>

definition argIndex :: "diagnose_args \<Rightarrow> nat" where
  "argIndex args = (case d_deploymentIndex args of None \<Rightarrow> 0 | Some n \<Rightarrow> n)"

text \<open>
  \<open>new Date(deployment.startTime || deployment.endTime)\<close>; both are \<open>Date\<close> objects
  when present, and \<open>new Date(undefined)\<close> is an invalid date.
\<close>

definition deployTimeOf :: "deployment \<Rightarrow> jsdate" where
  "deployTimeOf d =
     (case startTime d of Some t \<Rightarrow> t
      | None \<Rightarrow> (case endTime d of Some t \<Rightarrow> t | None \<Rightarrow> None))"

text \<open>
  The tool \<open>diagnose_deployment\<close>: the structured queries issued, the URLs fetched from
  the unstructured backend, and the report (or the exception that leaves the tool).
\<close>

definition diagnose_deployment ::
  "tool_env \<Rightarrow> diagnose_args \<Rightarrow> la_call list \<times> string list \<times> (thrown + string)" where
  "diagnose_deployment env args =
     (let deploymentIndex = argIndex args;
          minutes = numberOr (d_windowMinutes args) 10;
          deps = getDeployments env (int deploymentIndex + 1)
      in if length deps \<le> deploymentIndex then
           ([], [], Inr (''Error: No deployment found at index '' @ showNat deploymentIndex @
                         ''. Only '' @ showNat (length deps) @ '' deployments available.''))
         else
           (let d = deps ! deploymentIndex;
                deployTime = deployTimeOf d;
                endT = shiftDate deployTime (minutes * 60 * 1000)
            in case toISOString deployTime of
                 Inl e \<Rightarrow> ([], [], Inl e)
               | Inr deployIso \<Rightarrow>
                   if truthy (env_workspaceId env) then
                     (case toISOString endT of
                        Inl e \<Rightarrow> ([], [], Inl e)
                      | Inr endIso \<Rightarrow>
                          (case query (la env) (the (env_workspaceId env))
                                  (platformQuery deployIso endIso) minutes of
                             (c1, platformLogs) \<Rightarrow>
                          (case query (la env) (the (env_workspaceId env))
                                  (consoleQuery deployIso endIso) minutes of
                             (c2, consoleLogs) \<Rightarrow>
                          (case query (la env) (the (env_workspaceId env))
                                  (httpQuery deployIso endIso) minutes of
                             (c3, httpLogs) \<Rightarrow>
                               (c1 @ c2 @ c3, [],
                                bindE (platformSection env (rows platformLogs)) (\<lambda>p.
                                bindE (applicationSection env (rows consoleLogs)) (\<lambda>a.
                                bindE (httpSection env (rows httpLogs)) (\<lambda>h.
                                  Inr (diagnosisHeader d deployIso @ p @ a @ h @
                                       diagnosisSummary minutes deployIso)))))))))
                   else
                     (case getRecentLogs (kudu env) (env_appName env) 100 None of
                        (fetched, kuduLogs) \<Rightarrow>
                          ([], fetched,
                           Inr (diagnosisHeader d deployIso @ kuduSection kuduLogs @
                                diagnosisSummary minutes deployIso)))))"


text \<open>
  Following the spec's words for the row-cap test of claim C3 (a containment check, in any
  case, for the keyword \<open>limit\<close> or the keyword \<open>take\<close>); the source's own test is in
  \<open>addRowLimit\<close>.
\<close>

definition mentionsRowCapKeyword :: "string \<Rightarrow> bool" where
  "mentionsRowCapKeyword q =
     (jsIncludes (toLowerCase q) ''limit'' \<or> jsIncludes (toLowerCase q) ''take'')"

section \<open>Example worlds\<close>

definition env_rows :: "nat \<Rightarrow> la_env" where
  "env_rows n = \<lparr> t_entry = 1000, t_dispatch = 1001, t_done = 1250,
     queryWorkspace = (\<lambda>c. Returned \<lparr> status = Success,
        tables = [\<lparr> columnDescriptors = Some [\<lparr> name = Some ''Message'' \<rparr>], table_rows = replicate n [CStr ''x''] \<rparr>],
        partialError = None \<rparr>) \<rparr>"

definition env_partial :: la_env where
  "env_partial = \<lparr> t_entry = 1000, t_dispatch = 1001, t_done = 1250,
     queryWorkspace = (\<lambda>c. Returned \<lparr> status = PartialFailure, tables = [],
        partialError = Some (Some ''bad column'') \<rparr>) \<rparr>"

definition env_throwing :: la_env where
  "env_throwing = \<lparr> t_entry = 1000, t_dispatch = 1001, t_done = 1250,
     queryWorkspace = (\<lambda>c. Thrown (ErrorObj ''ECONNRESET'')) \<rparr>"

definition appUrl :: string where
  "appUrl = ''https://app.scm.azurewebsites.net''"

definition okText :: "string \<Rightarrow> fetch_outcome" where
  "okText t = Response \<lparr> ok = True, http_status = 200, statusText = ''OK'',
     text_body = Inr t, json_body = Inl (ErrorObj ''Unexpected token'') \<rparr>"

definition okList :: "KuduLogEntry list \<Rightarrow> fetch_outcome" where
  "okList es = Response \<lparr> ok = True, http_status = 200, statusText = ''OK'',
     text_body = Inr ''[]'', json_body = Inr es \<rparr>"

definition notFound :: fetch_outcome where
  "notFound = Response \<lparr> ok = False, http_status = 404, statusText = ''Not Found'',
     text_body = Inr [], json_body = Inl (ErrorObj ''Unexpected end of JSON input'') \<rparr>"

definition dockerLog :: KuduLogEntry where
  "dockerLog = \<lparr> machineName = ''lw0'', lastUpdated = ''2024-01-15T10:31:00Z'', entry_size = 60,
     href = appUrl @ ''/api/vfs/LogFiles/2024_01_15_lw0_docker.log'',
     path = ''/home/LogFiles/2024_01_15_lw0_docker.log'' \<rparr>"

definition appLog :: KuduLogEntry where
  "appLog = \<lparr> machineName = ''lw0'', lastUpdated = ''2024-01-15T10:31:00Z'', entry_size = 25,
     href = appUrl @ ''/api/vfs/LogFiles/Application/app.log'',
     path = ''/LogFiles/Application/app.log'' \<rparr>"

definition kenv_live :: kudu_env where
  "kenv_live = \<lparr>
     fetchWithAuth = (\<lambda>url.
       if url = appUrl @ ''/api/logs/docker'' then okList [dockerLog]
       else if url = href dockerLog
         then okText (''2024-01-15T10:30:00 started'' @ NL @ NL @ ''listening on 8080'' @ NL)
       else notFound),
     nowISO = ''2026-01-01T00:00:00.000Z'',
     dateValue = (\<lambda>s. None),
     hostSort = sortBy \<rparr>"

definition kenv_files :: kudu_env where
  "kenv_files = \<lparr>
     fetchWithAuth = (\<lambda>url.
       if url = appUrl @ ''/api/logs/docker'' then okList []
       else if url = appUrl @ ''/api/vfs/LogFiles/Application/'' then okList [appLog]
       else if url = appUrl @ ''/api/vfs/LogFiles/Application/app.log''
         then okText (''2024-01-15T10:30:00 boom'' @ NL)
       else notFound),
     nowISO = ''2026-01-01T00:00:00.000Z'',
     dateValue = (\<lambda>s. None),
     hostSort = sortBy \<rparr>"

definition kenv_two :: kudu_env where
  "kenv_two = \<lparr>
     fetchWithAuth = (\<lambda>url.
       if url = appUrl @ ''/api/logs/docker'' then okList []
       else if url = appUrl @ ''/api/vfs/LogFiles/Application/'' then okList [appLog]
       else if url = appUrl @ ''/api/vfs/LogFiles/Application/app.log''
         then okText (''alpha'' @ NL @ ''beta'' @ NL)
       else notFound),
     nowISO = ''2026-01-01T00:00:00.000Z'',
     dateValue = (\<lambda>s. None),
     hostSort = sortBy \<rparr>"

definition kenv_down :: kudu_env where
  "kenv_down = \<lparr>
     fetchWithAuth = (\<lambda>url.
       if url = appUrl @ ''/api/logs/docker'' then okList []
       else FetchThrew (ErrorObj ''fetch failed'')),
     nowISO = ''2026-01-01T00:00:00.000Z'',
     dateValue = (\<lambda>s. None),
     hostSort = sortBy \<rparr>"

definition dep0 :: deployment where
  "dep0 = \<lparr> dep_status = Some 4, deployer = Some ''GITHUB_ZIP_DEPLOY'', dep_message = None,
     startTime = Some (Some 1705314600000), endTime = None \<rparr>"

definition hostParse :: "string \<Rightarrow> jsdate" where
  "hostParse s = (if s = ''2024-01-15T10:30:00Z'' then Some 1705314600000 else None)"

definition hostDateText :: "jsdate \<Rightarrow> string" where
  "hostDateText d = (case d of None \<Rightarrow> ''Invalid Date'' | Some t \<Rightarrow> isoString t)"

definition platformTable :: la_table where
  "platformTable = \<lparr> columnDescriptors = Some [\<lparr> name = Some ''TimeGenerated'' \<rparr>, \<lparr> name = Some ''Message'' \<rparr>],
     table_rows = [[CDate (Some 1705314605000), CStr ''Container image pulled'']] \<rparr>"

definition httpTable :: la_table where
  "httpTable = \<lparr> columnDescriptors = Some [\<lparr> name = Some ''TimeGenerated'' \<rparr>, \<lparr> name = Some ''CsMethod'' \<rparr>,
        \<lparr> name = Some ''CsUriStem'' \<rparr>, \<lparr> name = Some ''ScStatus'' \<rparr>, \<lparr> name = Some ''TimeTaken'' \<rparr>],
     table_rows = [[CDate (Some 1705314660000), CStr ''GET'', CStr ''/favicon.ico'', CNum 404, CNum 12]] \<rparr>"

definition consoleTable :: la_table where
  "consoleTable = \<lparr> columnDescriptors = Some [\<lparr> name = Some ''TimeGenerated'' \<rparr>, \<lparr> name = Some ''ResultDescription'' \<rparr>],
     table_rows = [] \<rparr>"

definition env_diag :: la_env where
  "env_diag = \<lparr> t_entry = 1000, t_dispatch = 1001, t_done = 1250,
     queryWorkspace = (\<lambda>c. Returned \<lparr> status = Success,
        tables = [if jsIncludes (call_query c) ''AppServicePlatformLogs'' then platformTable
                  else if jsIncludes (call_query c) ''AppServiceHTTPLogs'' then httpTable
                  else consoleTable],
        partialError = None \<rparr>) \<rparr>"

definition tenv_fallback :: tool_env where
  "tenv_fallback = \<lparr> la = env_diag, kudu = kenv_live, env_appName = ''app'',
     env_deployments = [dep0], env_workspaceId = None, parseDate = hostParse,
     dateText = hostDateText \<rparr>"

definition tenv_la :: tool_env where
  "tenv_la = \<lparr> la = env_diag, kudu = kenv_live, env_appName = ''app'',
     env_deployments = [dep0], env_workspaceId = Some ''ws-guid'', parseDate = hostParse,
     dateText = hostDateText \<rparr>"

section \<open>Properties of the Log Analytics connector\<close>

lemma jsIncludes_sublist: "jsIncludes s n \<longleftrightarrow> sublist n s"
  by (induction s) (auto simp: sublist_Cons_right)

lemma showInt_MAX_ROWS: "showInt MAX_ROWS = ''500''" by code_simp
lemma showInt_500: "showInt 500 = ''500''" by code_simp
lemma showInt_7: "showInt 7 = ''7''" by code_simp

lemma query_calls:
  "trm \<le> 10080 \<Longrightarrow>
   fst (query env ws q trm) =
     [\<lparr> call_workspaceId = ws, call_query = addRowLimit q 500,
        call_startTime = t_dispatch env - trm * 60 * 1000, call_endTime = t_dispatch env,
        serverTimeoutInSeconds = 30 \<rparr>]"
  by (simp add: query_def Let_def MAX_TIMERANGE_DAYS_def MAX_ROWS_def QUERY_TIMEOUT_MS_def
      split: la_outcome.split)

text \<open>
  The guardrail in general. A time range above 10080 minutes (7 days) is rejected with
  the fixed failure result (no success, no rows, zero elapsed time, a message naming the
  7-day maximum) and no backend call; at or below 10080 minutes exactly one call is
  dispatched, whose query text is what \<open>addRowLimit\<close> makes of the caller's text.
\<close>

lemma query_guard_and_dispatch:
  "(10080 < timeRangeMinutes \<longrightarrow>
      query env workspaceId kqlQuery timeRangeMinutes =
        ([], \<lparr> success = False, rowCount = 0, truncated = False, columns = [], rows = [],
               queryTimeMs = 0,
               error = Some ''Time range exceeds maximum of 7 days. Use a shorter time range.'' \<rparr>)) \<and>
   (timeRangeMinutes \<le> 10080 \<longrightarrow>
      fst (query env workspaceId kqlQuery timeRangeMinutes) =
        [\<lparr> call_workspaceId = workspaceId,
           call_query =
             (if jsIncludes (toLowerCase kqlQuery) ''| limit'' \<or>
                 jsIncludes (toLowerCase kqlQuery) ''| take''
              then kqlQuery else kqlQuery @ NL @ ''| limit 500''),
           call_startTime = t_dispatch env - timeRangeMinutes * 60 * 1000,
           call_endTime = t_dispatch env,
           serverTimeoutInSeconds = 30 \<rparr>])"
proof (intro conjI impI)
  assume "10080 < timeRangeMinutes"
  then show "query env workspaceId kqlQuery timeRangeMinutes =
        ([], \<lparr> success = False, rowCount = 0, truncated = False, columns = [], rows = [],
               queryTimeMs = 0,
               error = Some ''Time range exceeds maximum of 7 days. Use a shorter time range.'' \<rparr>)"
    by (simp add: query_def emptyResult_def MAX_TIMERANGE_DAYS_def showInt_7)
next
  assume "timeRangeMinutes \<le> 10080"
  then have "\<not> timeRangeMinutes > MAX_TIMERANGE_DAYS * 24 * 60"
    by (simp add: MAX_TIMERANGE_DAYS_def)
  then show "fst (query env workspaceId kqlQuery timeRangeMinutes) =
        [\<lparr> call_workspaceId = workspaceId,
           call_query =
             (if jsIncludes (toLowerCase kqlQuery) ''| limit'' \<or>
                 jsIncludes (toLowerCase kqlQuery) ''| take''
              then kqlQuery else kqlQuery @ NL @ ''| limit 500''),
           call_startTime = t_dispatch env - timeRangeMinutes * 60 * 1000,
           call_endTime = t_dispatch env,
           serverTimeoutInSeconds = 30 \<rparr>]"
    by (simp add: query_def Let_def addRowLimit_def showInt_MAX_ROWS QUERY_TIMEOUT_MS_def
        split: la_outcome.split)
qed

text \<open>
  Claim C1, evaluated on the code. At a time range of 60 minutes a query that already
  has a row cap, written \<open>|take 10\<close>, is dispatched with a second cap appended, and a
  query without any cap whose filter text holds \<open>| limit\<close> inside a string literal is
  dispatched without one.
\<close>

theorem query_dispatch_cap_mismatch:
  "fst (query env ws ''T |take 10'' 60) =
     [\<lparr> call_workspaceId = ws, call_query = ''T |take 10'' @ NL @ ''| limit 500'',
        call_startTime = t_dispatch env - 60 * 60 * 1000, call_endTime = t_dispatch env,
        serverTimeoutInSeconds = 30 \<rparr>] \<and>
   fst (query env ws (''T | where Message has '' @ DQ @ ''| limit'' @ DQ) 60) =
     [\<lparr> call_workspaceId = ws,
        call_query = ''T | where Message has '' @ DQ @ ''| limit'' @ DQ,
        call_startTime = t_dispatch env - 60 * 60 * 1000, call_endTime = t_dispatch env,
        serverTimeoutInSeconds = 30 \<rparr>]"
proof -
  have a: "addRowLimit ''T |take 10'' 500 = ''T |take 10'' @ NL @ ''| limit 500''"
    by code_simp
  have b: "addRowLimit (''T | where Message has '' @ DQ @ ''| limit'' @ DQ) 500 =
           ''T | where Message has '' @ DQ @ ''| limit'' @ DQ"
    by code_simp
  have c: "fst (query env ws q 60) =
     [\<lparr> call_workspaceId = ws, call_query = addRowLimit q 500,
        call_startTime = t_dispatch env - 60 * 60 * 1000, call_endTime = t_dispatch env,
        serverTimeoutInSeconds = 30 \<rparr>]" for q
    by (rule query_calls) simp
  show ?thesis
    by (simp only: c a b simp_thms)
qed

lemma jsIncludes_append: "jsIncludes (p @ n @ s) n"
  by (simp add: jsIncludes_sublist)


lemma toLowerCase_append: "toLowerCase (a @ b) = toLowerCase a @ toLowerCase b"
  by (simp add: toLowerCase_def)

lemma lower_limit_clause: "toLowerCase (NL @ ''| limit 500'') = NL @ ''| limit'' @ '' 500''"
  by code_simp

lemma capped_has_limit: "jsIncludes (toLowerCase (q @ NL @ ''| limit 500'')) ''| limit''"
proof -
  have "toLowerCase (q @ NL @ ''| limit 500'') = (toLowerCase q @ NL) @ ''| limit'' @ '' 500''"
    using lower_limit_clause by (simp only: toLowerCase_append append_assoc)
  then show ?thesis
    by (simp only: jsIncludes_append)
qed

text \<open>
  What \<open>addRowLimit\<close> computes. The query is returned unchanged exactly when its
  lower-cased text contains the literal \<open>| limit\<close> or \<open>| take\<close> (a pipe, one space,
  the keyword); every other query gets a new line and \<open>| limit 500\<close> appended. Applied
  to its own output it changes nothing, and the two examples of the spec hold.
\<close>

lemma addRowLimit_cap_clause:
  "addRowLimit q 500 =
     (if sublist ''| limit'' (toLowerCase q) \<or> sublist ''| take'' (toLowerCase q) then q
      else q @ NL @ ''| limit 500'') \<and>
   addRowLimit (addRowLimit q 500) 500 = addRowLimit q 500 \<and>
   addRowLimit ''T | where X > 1'' 500 = ''T | where X > 1'' @ NL @ ''| limit 500'' \<and>
   addRowLimit ''T | take 10'' 500 = ''T | take 10''"
proof -
  have a: "addRowLimit q 500 =
     (if sublist ''| limit'' (toLowerCase q) \<or> sublist ''| take'' (toLowerCase q) then q
      else q @ NL @ ''| limit 500'')"
    by (simp add: addRowLimit_def showInt_500 jsIncludes_sublist)
  have e: "addRowLimit x 500 =
     (if jsIncludes (toLowerCase x) ''| limit'' \<or> jsIncludes (toLowerCase x) ''| take'' then x
      else x @ NL @ ''| limit 500'')" for x
    by (simp add: addRowLimit_def showInt_500 Let_def)
  have b: "addRowLimit (addRowLimit q 500) 500 = addRowLimit q 500"
  proof (cases "jsIncludes (toLowerCase q) ''| limit'' \<or> jsIncludes (toLowerCase q) ''| take''")
    case True
    then have "addRowLimit q 500 = q" by (simp add: e)
    then show ?thesis by simp
  next
    case False
    then have "addRowLimit q 500 = q @ NL @ ''| limit 500''" by (simp add: e)
    then show ?thesis using capped_has_limit [of q] by (simp add: e)
  qed
  have c: "addRowLimit ''T | where X > 1'' 500 = ''T | where X > 1'' @ NL @ ''| limit 500''"
    by code_simp
  have d: "addRowLimit ''T | take 10'' 500 = ''T | take 10''"
    by code_simp
  show ?thesis using a b c d by blast
qed

text \<open>
  Claim C3, evaluated on the code. The query \<open>T |take 10\<close> holds the keyword
  \<open>take\<close>, a row cap written without the space after the pipe, and a second cap is
  appended to it all the same.
\<close>

theorem addRowLimit_second_cap:
  "mentionsRowCapKeyword ''T |take 10'' \<and>
   addRowLimit ''T |take 10'' 500 = ''T |take 10'' @ NL @ ''| limit 500''"
  by code_simp

text \<open>
  Claim C2, as amended. In every result of \<open>query\<close> the row count is the number of rows,
  and the result is flagged truncated exactly when the row count is at least 500.
\<close>

theorem query_rowCount_truncated:
  "rowCount (snd (query env ws q trm)) = int (length (rows (snd (query env ws q trm)))) \<and>
   (truncated (snd (query env ws q trm)) \<longleftrightarrow> rowCount (snd (query env ws q trm)) \<ge> 500)"
  by (simp add: query_def Let_def emptyResult_def interpretResponse_def MAX_ROWS_def
      split: la_outcome.split)

text \<open>
  Claim C2 as stated fails: a query that brings its own larger cap is dispatched unchanged,
  and a result of 501 rows is flagged truncated although its row count is not 500.
\<close>

theorem query_truncated_counterexample:
  "truncated (snd (query (env_rows 501) ''ws'' ''T | take 1000'' 60)) \<and>
   rowCount (snd (query (env_rows 501) ''ws'' ''T | take 1000'' 60)) = 501 \<and>
   fst (query (env_rows 501) ''ws'' ''T | take 1000'' 60) =
     [\<lparr> call_workspaceId = ''ws'', call_query = ''T | take 1000'',
        call_startTime = 1001 - 60 * 60 * 1000, call_endTime = 1001,
        serverTimeoutInSeconds = 30 \<rparr>]"
  by code_simp

text \<open>
  Claim C4. Every run of \<open>query\<close> ends in a result value: the guardrail rejection
  (no call), or after exactly one backend call a failure carrying the thrown value's text,
  a failure carrying the partial-failure message, a success with the first table's rows,
  or an empty success for every other answer.
\<close>

theorem query_never_throws:
  "query env ws q trm = (calls, r) \<Longrightarrow>
     (calls = [] \<and> 10080 < trm \<and> \<not> success r \<and> rowCount r = 0 \<and> rows r = [] \<and>
      error r = Some ''Time range exceeds maximum of 7 days. Use a shorter time range.'') \<or>
     (\<exists>c. calls = [c] \<and> trm \<le> 10080 \<and>
        (case queryWorkspace env c of
           Thrown e \<Rightarrow> \<not> success r \<and> rowCount r = 0 \<and> rows r = [] \<and> error r = Some (errText e)
         | Returned res \<Rightarrow>
             (if status res = Success \<and> tables res \<noteq> [] then
                success r \<and> error r = None \<and>
                rowCount r = int (length (table_rows (hd (tables res)))) \<and>
                length (rows r) = length (table_rows (hd (tables res)))
              else if status res = PartialFailure then
                \<not> success r \<and> rowCount r = 0 \<and> rows r = [] \<and>
                error r = Some (''Partial query failure: '' @
                  (case partialError res of Some (Some m) \<Rightarrow> if m = [] then ''Unknown error'' else m
                   | _ \<Rightarrow> ''Unknown error''))
              else success r \<and> error r = None \<and> rowCount r = 0 \<and> rows r = [])))"
  by (auto simp: query_def Let_def emptyResult_def interpretResponse_def MAX_TIMERANGE_DAYS_def
      showInt_7 split: la_outcome.splits if_splits)

theorem query_never_throws_witness:
  "query env_throwing ''ws'' ''T | take 5'' 60 =
     ([\<lparr> call_workspaceId = ''ws'', call_query = ''T | take 5'',
         call_startTime = 1001 - 60 * 60 * 1000, call_endTime = 1001,
         serverTimeoutInSeconds = 30 \<rparr>],
      \<lparr> success = False, rowCount = 0, truncated = False, columns = [], rows = [],
        queryTimeMs = 250, error = Some ''ECONNRESET'' \<rparr>) \<and>
   query env_partial ''ws'' ''T | take 5'' 60 =
     ([\<lparr> call_workspaceId = ''ws'', call_query = ''T | take 5'',
         call_startTime = 1001 - 60 * 60 * 1000, call_endTime = 1001,
         serverTimeoutInSeconds = 30 \<rparr>],
      \<lparr> success = False, rowCount = 0, truncated = False, columns = [], rows = [],
        queryTimeMs = 250, error = Some ''Partial query failure: bad column'' \<rparr>) \<and>
   query (env_rows 0) ''ws'' ''T | take 5'' 60 =
     ([\<lparr> call_workspaceId = ''ws'', call_query = ''T | take 5'',
         call_startTime = 1001 - 60 * 60 * 1000, call_endTime = 1001,
         serverTimeoutInSeconds = 30 \<rparr>],
      \<lparr> success = True, rowCount = 0, truncated = False, columns = [''Message''], rows = [],
        queryTimeMs = 250, error = None \<rparr>) \<and>
   success (snd (query (env_rows 0) ''ws'' ''T | take 5'' 60)) \<and>
   \<not> success (snd (query env_partial ''ws'' ''T | take 5'' 60)) \<and>
   \<not> success (snd (query env_throwing ''ws'' ''T | take 5'' 60))"
proof -
  let ?c = "\<lparr> call_workspaceId = ''ws'', call_query = ''T | take 5'',
         call_startTime = 1001 - 60 * 60 * 1000, call_endTime = 1001,
         serverTimeoutInSeconds = 30 \<rparr>"
  have h1: "query env_throwing ''ws'' ''T | take 5'' 60 =
     ([?c], \<lparr> success = False, rowCount = 0, truncated = False, columns = [], rows = [],
        queryTimeMs = 250, error = Some ''ECONNRESET'' \<rparr>)"
    by code_simp
  have h2: "query env_partial ''ws'' ''T | take 5'' 60 =
     ([?c], \<lparr> success = False, rowCount = 0, truncated = False, columns = [], rows = [],
        queryTimeMs = 250, error = Some ''Partial query failure: bad column'' \<rparr>)"
    by code_simp
  have h3: "query (env_rows 0) ''ws'' ''T | take 5'' 60 =
     ([?c], \<lparr> success = True, rowCount = 0, truncated = False, columns = [''Message''], rows = [],
        queryTimeMs = 250, error = None \<rparr>)"
    by code_simp
  have k1: "queryWorkspace env_throwing c = Thrown (ErrorObj ''ECONNRESET'')" for c
    by (simp add: env_throwing_def)
  have k2: "queryWorkspace env_partial c = Returned \<lparr> status = PartialFailure, tables = [],
        partialError = Some (Some ''bad column'') \<rparr>" for c
    by (simp add: env_partial_def)
  have k3: "queryWorkspace (env_rows 0) c = Returned \<lparr> status = Success,
        tables = [\<lparr> columnDescriptors = Some [\<lparr> name = Some ''Message'' \<rparr>],
                   table_rows = replicate 0 [CStr ''x''] \<rparr>],
        partialError = None \<rparr>" for c
    by (simp add: env_rows_def)
  have a: "\<not> success (snd (query env_throwing ''ws'' ''T | take 5'' 60))"
    using query_never_throws [OF h1] h1 k1 by simp
  have b: "\<not> success (snd (query env_partial ''ws'' ''T | take 5'' 60))"
    using query_never_throws [OF h2] h2 k2 by simp
  have c: "success (snd (query (env_rows 0) ''ws'' ''T | take 5'' 60))"
    using query_never_throws [OF h3] h3 k3 by simp
  show ?thesis using h1 h2 h3 a b c by simp
qed

section \<open>Properties of the Kudu connector\<close>

lemma sliceFrom_length: "0 < n \<Longrightarrow> length (sliceFrom (- n) xs) \<le> nat n"
  by (simp add: sliceFrom_def Let_def)

lemma getContainerLogs_bound:
  "0 < n \<Longrightarrow> length (entries (snd (getContainerLogs env app n))) \<le> nat n"
  by (auto simp: getContainerLogs_def Let_def kuduOk_def kuduFailed_def sliceFrom_length
      split: prod.splits sum.splits fetch_outcome.splits)

lemma getRecentLogs_bound:
  assumes "0 < n"
  shows "length (entries (snd (getRecentLogs env app n flt))) \<le> nat n"
proof -
  obtain t1 live where l: "getContainerLogs env app n = (t1, live)"
    by (cases "getContainerLogs env app n")
  have b: "length (entries live) \<le> nat n"
    using getContainerLogs_bound [OF assms, of env app] l by simp
  have f: "length (filter P (entries live)) \<le> nat n" for P
    using b length_filter_le [of P "entries live"] by linarith
  show ?thesis
    using l b f assms
    by (auto simp: getRecentLogs_def Let_def kuduOk_def sliceFrom_length
        split: prod.splits sum.splits)
qed

text \<open>
  The fallback in general. When the live-stream attempt gives no usable entry, the
  on-disk fallback decides the result: a listing or read that raises gives back the
  live-stream result as it was, an empty listing gives an empty success, and otherwise
  the entries are the non-blank lines of the file read that pass the filter, the last
  \<open>maxLines\<close> of them, each with the fetch time as its timestamp. The URLs fetched are
  those of the live-stream attempt followed by those of the fallback.
\<close>

lemma getRecentLogs_fallback:
  assumes "getContainerLogs env appName maxLines = (t1, live)"
    and "\<not> (k_success live \<and> entries live \<noteq> [])"
  shows
    "(case listLogFiles env appName ''/LogFiles/Application/'' of
        (t2, Inl e) \<Rightarrow> getRecentLogs env appName maxLines flt = (t1 @ t2, live)
      | (t2, Inr logFiles) \<Rightarrow>
          (if logFiles = [] then
             getRecentLogs env appName maxLines flt =
               (t1 @ t2, \<lparr> k_success = True, entries = [], k_error = None \<rparr>)
           else
             (case readLogFile env appName (path (hd (sortNewestFirst env logFiles))) 100000 of
                (t3, Inl e) \<Rightarrow> getRecentLogs env appName maxLines flt = (t1 @ t2 @ t3, live)
              | (t3, Inr c) \<Rightarrow>
                  getRecentLogs env appName maxLines flt =
                    (t1 @ t2 @ t3,
                     \<lparr> k_success = True,
                       entries =
                         map (\<lambda>line. \<lparr> timestamp = nowISO env, content = line \<rparr>)
                           (sliceFrom (- maxLines)
                              (if truthy flt then filter (matchesFilter (the flt)) (contentLines c)
                               else contentLines c)),
                       k_error = None \<rparr>))))"
  using assms
  by (auto simp: getRecentLogs_def Let_def kuduOk_def split: prod.splits sum.splits)

lemma getRecentLogs_fallback_raises:
  "getContainerLogs kenv_down ''app'' 100 =
     ([appUrl @ ''/api/logs/docker''], \<lparr> k_success = True, entries = [], k_error = None \<rparr>) \<and>
   getRecentLogs kenv_down ''app'' 100 (Some ''BOOM'') =
     ([appUrl @ ''/api/logs/docker'', appUrl @ ''/api/vfs/LogFiles/Application/''],
      \<lparr> k_success = True, entries = [], k_error = None \<rparr>)"
proof -
  have h2: "getContainerLogs kenv_down ''app'' 100 =
     ([appUrl @ ''/api/logs/docker''], \<lparr> k_success = True, entries = [], k_error = None \<rparr>)"
    by code_simp
  have n: "\<not> (k_success \<lparr> k_success = True, entries = [], k_error = None \<rparr> \<and>
              entries \<lparr> k_success = True, entries = [], k_error = None \<rparr> \<noteq> [])"
    by simp
  have l2: "listLogFiles kenv_down ''app'' ''/LogFiles/Application/'' =
     ([appUrl @ ''/api/vfs/LogFiles/Application/''],
      Inl (ErrorObj ''Failed to list log files: fetch failed''))"
    by code_simp
  have a: "getRecentLogs kenv_down ''app'' 100 (Some ''BOOM'') =
     ([appUrl @ ''/api/logs/docker'', appUrl @ ''/api/vfs/LogFiles/Application/''],
      \<lparr> k_success = True, entries = [], k_error = None \<rparr>)"
    using getRecentLogs_fallback [OF h2 n, of "Some ''BOOM''"] l2 by simp
  show ?thesis using h2 a by simp
qed

text \<open>
  Claim C5, evaluated on the code. The fallback does not treat its lines as the
  live-stream path does. A line of the file with a leading timestamp gets the fetch time
  as its timestamp, where \<open>lineEntry\<close> (the live-stream treatment) extracts the
  timestamp of the line; and with a limit of one line and the filter \<open>alpha\<close> the
  fallback filters first and returns the line \<open>alpha\<close>, where the live-stream
  treatment cuts to the last line first and returns nothing.
\<close>

theorem getRecentLogs_fallback_unlike_live:
  "getRecentLogs kenv_files ''app'' 100 None =
     ([appUrl @ ''/api/logs/docker'', appUrl @ ''/api/vfs/LogFiles/Application/'',
       appUrl @ ''/api/vfs/LogFiles/Application/app.log''],
      \<lparr> k_success = True,
        entries = [\<lparr> timestamp = ''2026-01-01T00:00:00.000Z'',
                     content = ''2024-01-15T10:30:00 boom'' \<rparr>],
        k_error = None \<rparr>) \<and>
   map (lineEntry kenv_files) (sliceFrom (- 100) (contentLines (''2024-01-15T10:30:00 boom'' @ NL))) =
     [\<lparr> timestamp = ''2024-01-15T10:30:00'', content = ''2024-01-15T10:30:00 boom'' \<rparr>] \<and>
   getRecentLogs kenv_two ''app'' 1 (Some ''alpha'') =
     ([appUrl @ ''/api/logs/docker'', appUrl @ ''/api/vfs/LogFiles/Application/'',
       appUrl @ ''/api/vfs/LogFiles/Application/app.log''],
      \<lparr> k_success = True,
        entries = [\<lparr> timestamp = ''2026-01-01T00:00:00.000Z'', content = ''alpha'' \<rparr>],
        k_error = None \<rparr>) \<and>
   filter (\<lambda>e. matchesFilter ''alpha'' (content e))
     (map (lineEntry kenv_two) (sliceFrom (- 1) (contentLines (''alpha'' @ NL @ ''beta'' @ NL)))) = []"
  by code_simp

lemma sliceFrom_nonempty:
  assumes "0 \<le> n" and "xs \<noteq> []"
  shows "sliceFrom (- n) xs \<noteq> []"
proof -
  have l: "0 < length xs" using assms(2) by simp
  show ?thesis
  proof (cases "n = 0")
    case True
    then show ?thesis using assms(2) by (simp add: sliceFrom_def)
  next
    case False
    then have "nat (max (int (length xs) - n) 0) < length xs"
      using assms(1) l by linarith
    then show ?thesis using False assms(1) by (simp add: sliceFrom_def Let_def)
  qed
qed

lemma getContainerLogs_has_entries:
  assumes "listContainerLogs env app = (t1, Inr logs)" and "logs \<noteq> []"
    and "fetchWithAuth env (href (hd (sortNewestFirst env logs))) = Response r"
    and "ok r" and "text_body r = Inr c" and "contentLines c \<noteq> []" and "0 \<le> maxLines"
  shows "k_success (snd (getContainerLogs env app maxLines)) \<and>
         entries (snd (getContainerLogs env app maxLines)) \<noteq> []"
  using assms sliceFrom_nonempty [of maxLines "contentLines c"]
  by (simp add: getContainerLogs_def Let_def kuduOk_def)

text \<open>
  Claim C10. When the live-stream attempt succeeded with at least one entry and a
  non-empty filter removes every entry, the result is a success without entries, and the
  URLs fetched are exactly those of the live-stream attempt: the fallback is not tried.
\<close>

theorem getRecentLogs_filter_empties:
  assumes "getContainerLogs env appName maxLines = (fetched, live)"
    and "k_success live" and "entries live \<noteq> []"
    and "flt \<noteq> []"
    and "filter (\<lambda>e. matchesFilter flt (content e)) (entries live) = []"
  shows "getRecentLogs env appName maxLines (Some flt) =
           (fetched, \<lparr> k_success = True, entries = [], k_error = None \<rparr>)"
  using assms by (simp add: getRecentLogs_def truthy_def kuduOk_def)

theorem getRecentLogs_filter_empties_witness:
  "getContainerLogs kenv_live ''app'' 100 =
     ([appUrl @ ''/api/logs/docker'', href dockerLog],
      \<lparr> k_success = True,
        entries = [\<lparr> timestamp = ''2024-01-15T10:30:00'', content = ''2024-01-15T10:30:00 started'' \<rparr>,
                   \<lparr> timestamp = ''2026-01-01T00:00:00.000Z'', content = ''listening on 8080'' \<rparr>],
        k_error = None \<rparr>) \<and>
   getRecentLogs kenv_live ''app'' 100 (Some ''ERROR'') =
     ([appUrl @ ''/api/logs/docker'', href dockerLog],
      \<lparr> k_success = True, entries = [], k_error = None \<rparr>)"
proof -
  have h: "getContainerLogs kenv_live ''app'' 100 =
     ([appUrl @ ''/api/logs/docker'', href dockerLog],
      \<lparr> k_success = True,
        entries = [\<lparr> timestamp = ''2024-01-15T10:30:00'', content = ''2024-01-15T10:30:00 started'' \<rparr>,
                   \<lparr> timestamp = ''2026-01-01T00:00:00.000Z'', content = ''listening on 8080'' \<rparr>],
        k_error = None \<rparr>)"
    by code_simp
  have f: "filter (\<lambda>e. matchesFilter ''ERROR'' (content e))
             [\<lparr> timestamp = ''2024-01-15T10:30:00'', content = ''2024-01-15T10:30:00 started'' \<rparr>,
              \<lparr> timestamp = ''2026-01-01T00:00:00.000Z'', content = ''listening on 8080'' \<rparr>] = []"
    by code_simp
  show ?thesis
    using getRecentLogs_filter_empties [OF h, of "''ERROR''"] h f by simp
qed

section \<open>Properties of the tools\<close>

text \<open>
  Claim C6, evaluated on the code. The start-up and termination tests compare case
  sensitively: a message beginning with a capital (\<open>Starting ...\<close>, \<open>Stopping ...\<close>)
  holds the keyword when case is ignored and is still not tagged, while the error tests
  of the same block do ignore case.
\<close>

theorem classifier_case_sensitive:
  "\<not> isStartupMessage ''Starting container for site'' \<and>
   jsIncludes (toLowerCase ''Starting container for site'') ''start'' \<and>
   \<not> isTerminationMessage ''Stopping site demo-app'' \<and>
   jsIncludes (toLowerCase ''Stopping site demo-app'') ''stop'' \<and>
   isErrorMessage ''Container CRASHED'' \<and>
   isAppErrorMessage ''Unhandled EXCEPTION'' \<and>
   startupEvents [[(''TimeGenerated'', CDate (Some 1705314605000)),
                   (''Message'', CStr ''Starting container for site'')]] = Inr []"
  by code_simp

text \<open>
  What holds of the three sections of the report: each one that is produced begins with
  its header, and an empty row set gives the explicit marker.
\<close>

lemma bindE_Inr: "bindE m f = Inr y \<Longrightarrow> \<exists>x. m = Inr x \<and> f x = Inr y"
  by (cases m) (auto simp: bindE_def)

lemma platformSection_header: "platformSection env rs = Inr s \<Longrightarrow> prefix (platformHeader rs) s"
  by (auto simp: platformSection_def split: if_splits dest!: bindE_Inr)

lemma applicationSection_header:
  "applicationSection env rs = Inr s \<Longrightarrow> prefix (applicationHeader rs) s"
  by (auto simp: applicationSection_def split: if_splits dest!: bindE_Inr)

lemma httpSection_header: "httpSection env rs = Inr s \<Longrightarrow> prefix (httpHeader rs) s"
  by (auto simp: httpSection_def Let_def split: if_splits dest!: bindE_Inr)

lemma empty_sections:
  "platformSection env [] = Inr (platformHeader [] @ ''_No platform events found in this window._'' @ NL @ NL)"
  "applicationSection env [] = Inr (applicationHeader [] @ ''_No console output in this window._'' @ NL @ NL)"
  "httpSection env [] = Inr (httpHeader [] @
     ''_No HTTP requests in this window (app may not have received traffic yet)._'' @ NL @ NL)"
  by (simp_all add: platformSection_def applicationSection_def httpSection_def)

text \<open>
  Claim C7, evaluated on the code. With a workspace identifier available, a platform
  event that matches no keyword and a request answered with status 404 leave their
  sections with the header alone: neither findings nor a marker follow it.
\<close>

theorem diagnose_sections_without_marker:
  "platformSection tenv_la
     [[(''TimeGenerated'', CDate (Some 1705314605000)), (''Message'', CStr ''Container image pulled'')]] =
     Inr (''### Platform Events (1 events)'' @ NL @ NL) \<and>
   httpSection tenv_la
     [[(''TimeGenerated'', CDate (Some 1705314660000)), (''CsMethod'', CStr ''GET''),
       (''CsUriStem'', CStr ''/favicon.ico''), (''ScStatus'', CNum 404), (''TimeTaken'', CNum 12)]] =
     Inr (''### First HTTP Requests (1 requests)'' @ NL @ NL) \<and>
   snd (snd (diagnose_deployment tenv_la \<lparr> d_deploymentIndex = None, d_windowMinutes = None \<rparr>)) =
     Inr (diagnosisHeader dep0 ''2024-01-15T10:30:00.000Z'' @
          ''### Platform Events (1 events)'' @ NL @ NL @
          ''### Application Logs (0 entries)'' @ NL @ NL @
          ''_No console output in this window._'' @ NL @ NL @
          ''### First HTTP Requests (1 requests)'' @ NL @ NL @
          diagnosisSummary 10 ''2024-01-15T10:30:00.000Z'')"
  by code_simp

text \<open>
  Claim C8. Without a workspace identifier no structured query is issued; and when the
  deployment exists and has a valid time, the report is the header, the fallback section
  and the summary, where the fallback section carries the notice that Log Analytics is
  not configured and shows the first 30 of the at most 100 entries that
  \<open>getRecentLogs\<close> returned for a limit of 100 lines and no filter.
\<close>

theorem diagnose_without_workspace:
  assumes "\<not> truthy (env_workspaceId env)"
  shows
    "fst (diagnose_deployment env args) = [] \<and>
     (argIndex args < length (env_deployments env) \<and>
      deployTimeOf (env_deployments env ! argIndex args) = Some t \<longrightarrow>
        diagnose_deployment env args =
          ([], fst (getRecentLogs (kudu env) (env_appName env) 100 None),
           Inr (diagnosisHeader (env_deployments env ! argIndex args) (isoString t) @
                kuduSection (snd (getRecentLogs (kudu env) (env_appName env) 100 None)) @
                diagnosisSummary (numberOr (d_windowMinutes args) 10) (isoString t))) \<and>
        length (entries (snd (getRecentLogs (kudu env) (env_appName env) 100 None))) \<le> 100 \<and>
        kuduSection (snd (getRecentLogs (kudu env) (env_appName env) 100 None)) =
          WARN @ '' Log Analytics not configured. Limited diagnosis available.'' @ NL @ NL @
          ''### Recent Container Logs'' @ NL @ NL @
          (if entries (snd (getRecentLogs (kudu env) (env_appName env) 100 None)) = [] then []
           else BT @ BT @ BT @ NL @
                joinWith NL (map content
                  (take 30 (entries (snd (getRecentLogs (kudu env) (env_appName env) 100 None))))) @
                NL @ BT @ BT @ BT @ NL @ NL))"
proof (intro conjI impI)
  show "fst (diagnose_deployment env args) = []"
    using assms
    by (simp add: diagnose_deployment_def Let_def split: sum.splits prod.splits)
next
  assume a: "argIndex args < length (env_deployments env) \<and>
      deployTimeOf (env_deployments env ! argIndex args) = Some t"
  have n: "nat (max 1 (int (argIndex args) + 1)) = Suc (argIndex args)"
    by simp
  have g: "getDeployments env (int (argIndex args) + 1) = take (Suc (argIndex args)) (env_deployments env)"
    by (simp only: getDeployments_def n)
  have l: "\<not> length (getDeployments env (int (argIndex args) + 1)) \<le> argIndex args"
    using a by (simp add: g)
  have d: "getDeployments env (int (argIndex args) + 1) ! argIndex args =
           env_deployments env ! argIndex args"
    by (simp add: g)
  show "diagnose_deployment env args =
          ([], fst (getRecentLogs (kudu env) (env_appName env) 100 None),
           Inr (diagnosisHeader (env_deployments env ! argIndex args) (isoString t) @
                kuduSection (snd (getRecentLogs (kudu env) (env_appName env) 100 None)) @
                diagnosisSummary (numberOr (d_windowMinutes args) 10) (isoString t)))"
    using assms a l d
    by (simp add: diagnose_deployment_def Let_def toISOString_def split: prod.splits)
next
  show "length (entries (snd (getRecentLogs (kudu env) (env_appName env) 100 None))) \<le> 100"
    using getRecentLogs_bound [of 100 "kudu env" "env_appName env" None] by simp
next
  show "kuduSection (snd (getRecentLogs (kudu env) (env_appName env) 100 None)) =
          WARN @ '' Log Analytics not configured. Limited diagnosis available.'' @ NL @ NL @
          ''### Recent Container Logs'' @ NL @ NL @
          (if entries (snd (getRecentLogs (kudu env) (env_appName env) 100 None)) = [] then []
           else BT @ BT @ BT @ NL @
                joinWith NL (map content
                  (take 30 (entries (snd (getRecentLogs (kudu env) (env_appName env) 100 None))))) @
                NL @ BT @ BT @ BT @ NL @ NL)"
    by (simp add: kuduSection_def)
qed

theorem diagnose_without_workspace_witness:
  "\<not> truthy (env_workspaceId tenv_fallback) \<and>
   argIndex \<lparr> d_deploymentIndex = None, d_windowMinutes = None \<rparr> < length (env_deployments tenv_fallback) \<and>
   deployTimeOf (env_deployments tenv_fallback ! argIndex \<lparr> d_deploymentIndex = None, d_windowMinutes = None \<rparr>) =
     Some 1705314600000 \<and>
   diagnose_deployment tenv_fallback \<lparr> d_deploymentIndex = None, d_windowMinutes = None \<rparr> =
     ([], [appUrl @ ''/api/logs/docker'', href dockerLog],
      Inr (diagnosisHeader dep0 ''2024-01-15T10:30:00.000Z'' @
           WARN @ '' Log Analytics not configured. Limited diagnosis available.'' @ NL @ NL @
           ''### Recent Container Logs'' @ NL @ NL @
           BT @ BT @ BT @ NL @ ''2024-01-15T10:30:00 started'' @ NL @ ''listening on 8080'' @ NL @
           BT @ BT @ BT @ NL @ NL @
           diagnosisSummary 10 ''2024-01-15T10:30:00.000Z''))"
proof -
  let ?a = "\<lparr> d_deploymentIndex = None, d_windowMinutes = None \<rparr>"
  have h0: "\<not> truthy (env_workspaceId tenv_fallback)" by code_simp
  have h1: "argIndex ?a < length (env_deployments tenv_fallback)" by code_simp
  have h2: "deployTimeOf (env_deployments tenv_fallback ! argIndex ?a) = Some 1705314600000"
    by code_simp
  have r: "diagnose_deployment tenv_fallback ?a =
          ([], fst (getRecentLogs (kudu tenv_fallback) (env_appName tenv_fallback) 100 None),
           Inr (diagnosisHeader (env_deployments tenv_fallback ! argIndex ?a) (isoString 1705314600000) @
                kuduSection (snd (getRecentLogs (kudu tenv_fallback) (env_appName tenv_fallback) 100 None)) @
                diagnosisSummary (numberOr (d_windowMinutes ?a) 10) (isoString 1705314600000)))"
    using diagnose_without_workspace [OF h0, of ?a 1705314600000] h1 h2 by blast
  have e: "([], fst (getRecentLogs (kudu tenv_fallback) (env_appName tenv_fallback) 100 None),
           Inr (diagnosisHeader (env_deployments tenv_fallback ! argIndex ?a) (isoString 1705314600000) @
                kuduSection (snd (getRecentLogs (kudu tenv_fallback) (env_appName tenv_fallback) 100 None)) @
                diagnosisSummary (numberOr (d_windowMinutes ?a) 10) (isoString 1705314600000))) =
     (([] :: la_call list), [appUrl @ ''/api/logs/docker'', href dockerLog],
      (Inr (diagnosisHeader dep0 ''2024-01-15T10:30:00.000Z'' @
           WARN @ '' Log Analytics not configured. Limited diagnosis available.'' @ NL @ NL @
           ''### Recent Container Logs'' @ NL @ NL @
           BT @ BT @ BT @ NL @ ''2024-01-15T10:30:00 started'' @ NL @ ''listening on 8080'' @ NL @
           BT @ BT @ BT @ NL @ NL @
           diagnosisSummary 10 ''2024-01-15T10:30:00.000Z'') :: thrown + string))"
    by code_simp
  show ?thesis using h0 h1 h2 r e by simp
qed




end
